theory Spec2Isabelle
  imports Main
begin

section \<open>The dialogue manager of mmworkbench/dialogue.py\<close>

text \<open>
  The module has three classes: \<^verbatim>\<open>DialogueStateRule\<close> (a predicate over a request context
  with a complexity score), \<^verbatim>\<open>DialogueManager\<close> (the rule list, the handler table, and the
  dispatch) and \<^verbatim>\<open>DialogueResponder\<close> (the list of client actions a handler builds).
  Every Python exception the code can raise on the inputs modelled here is a value of
  \<open>error\<close>; a method that mutates its object returns the object's new state, also when
  it raises, since a Python exception does not undo the mutations made before it.
\<close>

datatype error =
    ValueError | TypeError | AttributeError | KeyError | IndexError
  | AssertionError | NotImplementedError

subsection \<open>Python values\<close>

text \<open>
  The values a caller passes as keyword arguments of a rule: a string, a list or a set of
  strings, or a dict from strings to values (\<^verbatim>\<open>domain='weather'\<close>,
  \<^verbatim>\<open>entities=['city', 'date']\<close>, \<^verbatim>\<open>entities={'city': 'Paris'}\<close>). The constructor
  stores either such a value or a frozenset it has built from one.
\<close>

datatype 'v arg =
    PyStr string
  | PyList "string list"
  | PySet "string set"
  | PyDict "string \<rightharpoonup> 'v"

datatype 'v resolved_val =
    Arg "'v arg"
  | Frozenset "string set"

text \<open>\<^verbatim>\<open>frozenset((x,))\<close>: the element must be hashable; lists, sets and dicts are not.\<close>

fun frozenset_single :: "'v arg \<Rightarrow> error + 'v resolved_val" where
  "frozenset_single (PyStr s) = Inr (Frozenset {s})"
| "frozenset_single (PyList xs) = Inl TypeError"
| "frozenset_single (PySet S) = Inl TypeError"
| "frozenset_single (PyDict d) = Inl TypeError"

text \<open>\<^verbatim>\<open>frozenset(x)\<close>: the elements of the iterable; a string yields its characters, a dict
  its keys.\<close>

fun frozenset_of :: "'v arg \<Rightarrow> 'v resolved_val" where
  "frozenset_of (PyStr s) = Frozenset ((\<lambda>c. [c]) ` set s)"
| "frozenset_of (PyList xs) = Frozenset (set xs)"
| "frozenset_of (PySet S) = Frozenset S"
| "frozenset_of (PyDict d) = Frozenset (dom d)"

text \<open>Python truthiness, as \<^verbatim>\<open>if self.domain:\<close> tests it: empty containers and the empty
  string are false.\<close>

fun truthy_arg :: "'v arg \<Rightarrow> bool" where
  "truthy_arg (PyStr s) = (s \<noteq> [])"
| "truthy_arg (PyList xs) = (xs \<noteq> [])"
| "truthy_arg (PySet S) = (S \<noteq> {})"
| "truthy_arg (PyDict d) = (d \<noteq> Map.empty)"

fun truthy :: "'v resolved_val option \<Rightarrow> bool" where
  "truthy None = False"
| "truthy (Some (Arg a)) = truthy_arg a"
| "truthy (Some (Frozenset S)) = (S \<noteq> {})"

subsection \<open>DialogueStateRule\<close>

record 'v rule =
  dialogue_state :: string
  domain :: "'v resolved_val option"
  intent :: "'v resolved_val option"
  entity_types :: "string set option"
  entity_mappings :: "(string \<rightharpoonup> 'v) option"

text \<open>\<^verbatim>\<open>key_kwargs = [('domain',), ('intent',), ('entity', 'entities')]\<close>\<close>

definition key_kwargs :: "string list list" where
  "key_kwargs = [[''domain''], [''intent''], [''entity'', ''entities'']]"

text \<open>
  The loop \<^verbatim>\<open>for keys in key_kwargs\<close> of \<^verbatim>\<open>__init__\<close>, filling the dict
  \<^verbatim>\<open>resolved\<close>. A pair is a singular and a plural keyword, which exclude each other; a
  single key is copied when present. Keywords that the list does not name are never
  read.
\<close>

fun resolve ::
  "string list list \<Rightarrow> (string \<rightharpoonup> 'v arg) \<Rightarrow> (string \<rightharpoonup> 'v resolved_val)
     \<Rightarrow> error + (string \<rightharpoonup> 'v resolved_val)" where
  "resolve [] kwargs resolved = Inr resolved"
| "resolve ([single, plural] # rest) kwargs resolved =
     (if single \<in> dom kwargs \<and> plural \<in> dom kwargs then Inl ValueError
      else
        (case (case kwargs single of
                 None \<Rightarrow> Inr resolved
               | Some x \<Rightarrow> (case frozenset_single x of
                              Inl e \<Rightarrow> Inl e
                            | Inr fs \<Rightarrow> Inr (resolved(plural \<mapsto> fs)))) of
           Inl e \<Rightarrow> Inl e
         | Inr resolved1 \<Rightarrow>
             resolve rest kwargs
               (case kwargs plural of
                  None \<Rightarrow> resolved1
                | Some xs \<Rightarrow> resolved1(plural \<mapsto> frozenset_of xs))))"
| "resolve ([] # rest) kwargs resolved = Inl IndexError"
| "resolve ((k # ks) # rest) kwargs resolved =
     resolve rest kwargs
       (case kwargs k of None \<Rightarrow> resolved | Some x \<Rightarrow> resolved(k \<mapsto> Arg x))"

text \<open>
  The rest of \<^verbatim>\<open>__init__\<close>: the \<^verbatim>\<open>isinstance\<close> chain on \<^verbatim>\<open>resolved.get('entities')\<close>.
  A frozenset is none of \<^verbatim>\<open>str\<close>, \<^verbatim>\<open>list\<close>, \<^verbatim>\<open>set\<close>, \<^verbatim>\<open>dict\<close>
  (\<^verbatim>\<open>isinstance(frozenset(), set)\<close> is false), so it reaches the final \<^verbatim>\<open>else\<close>.
\<close>

definition DialogueStateRule_init ::
  "string \<Rightarrow> (string \<rightharpoonup> 'v arg) \<Rightarrow> error + 'v rule" where
  "DialogueStateRule_init state kwargs =
     (case resolve key_kwargs kwargs Map.empty of
        Inl e \<Rightarrow> Inl e
      | Inr resolved \<Rightarrow>
          (let r = \<lparr>dialogue_state = state,
                    domain = resolved ''domain'',
                    intent = resolved ''intent'',
                    entity_types = None,
                    entity_mappings = None\<rparr>
           in case resolved ''entities'' of
                None \<Rightarrow> Inr r
              | Some (Arg (PyStr s)) \<Rightarrow> Inr (r\<lparr>entity_types := Some {s}\<rparr>)
              | Some (Arg (PyList xs)) \<Rightarrow> Inr (r\<lparr>entity_types := Some (set xs)\<rparr>)
              | Some (Arg (PySet S)) \<Rightarrow> Inr (r\<lparr>entity_types := Some S\<rparr>)
              | Some (Arg (PyDict d)) \<Rightarrow> Inr (r\<lparr>entity_mappings := Some d\<rparr>)
              | Some (Frozenset S) \<Rightarrow> Inl ValueError))"

text \<open>
  A request context and its entities. The code reads them by subscript
  (\<^verbatim>\<open>context['domain']\<close>, \<^verbatim>\<open>entity['type']\<close>) and, in two places, by attribute
  (\<^verbatim>\<open>context.entity_types\<close>, \<^verbatim>\<open>entity.type\<close>). The \<open>item_\<close> fields are the subscripts;
  the \<open>attr_\<close> fields are the attributes, \<open>None\<close> when the object has no such attribute,
  as is the case for a plain \<^verbatim>\<open>dict\<close>, the type the docstring of \<^verbatim>\<open>apply\<close> gives for
  the context. The three keys \<^verbatim>\<open>domain\<close>, \<^verbatim>\<open>intent\<close>, \<^verbatim>\<open>entities\<close> of a context and
  the two keys \<^verbatim>\<open>type\<close>, \<^verbatim>\<open>value\<close> of an entity are taken to be present.
\<close>

record 'v entity =
  item_type :: string
  item_value :: 'v
  attr_type :: "string option"

record 'v req_context =
  item_domain :: string
  item_intent :: string
  item_entities :: "'v entity list"
  attr_entity_types :: "string set option"

text \<open>A context and an entity that are plain dicts.\<close>

definition dict_entity :: "string \<Rightarrow> 'v \<Rightarrow> 'v entity" where
  "dict_entity t v = \<lparr>item_type = t, item_value = v, attr_type = None\<rparr>"

definition dict_context :: "string \<Rightarrow> string \<Rightarrow> 'v entity list \<Rightarrow> 'v req_context" where
  "dict_context d i es =
     \<lparr>item_domain = d, item_intent = i, item_entities = es, attr_entity_types = None\<rparr>"

text \<open>
  Lines 78 to 80 of \<^verbatim>\<open>apply\<close>: the local set \<^verbatim>\<open>entity_types\<close>, which \<^verbatim>\<open>update\<close> fills
  with the characters of each type string. The comparison that follows does not read it.
\<close>

fun local_entity_types :: "'v entity list \<Rightarrow> string set \<Rightarrow> string set" where
  "local_entity_types [] acc = acc"
| "local_entity_types (e # es) acc =
     local_entity_types es (acc \<union> (\<lambda>c. [c]) ` set (item_type e))"

text \<open>
  Lines 87 to 91: the loop that collects \<^verbatim>\<open>matched_entities\<close>. The test reads
  \<^verbatim>\<open>entity['type']\<close> for membership, then \<^verbatim>\<open>entity.type\<close> for the lookup and for the
  element added.
\<close>

fun collect_matched ::
  "(string \<rightharpoonup> 'v) \<Rightarrow> 'v entity list \<Rightarrow> string set \<Rightarrow> error + string set" where
  "collect_matched mappings [] matched = Inr matched"
| "collect_matched mappings (e # es) matched =
     (if item_type e \<in> dom mappings then
        (case attr_type e of
           None \<Rightarrow> Inl AttributeError
         | Some t \<Rightarrow>
             (case mappings t of
                None \<Rightarrow> Inl KeyError
              | Some required \<Rightarrow>
                  if item_value e = required
                  then collect_matched mappings es (insert t matched)
                  else collect_matched mappings es matched))
      else collect_matched mappings es matched)"

definition rule_apply :: "'v rule \<Rightarrow> 'v req_context \<Rightarrow> error + bool" where
  "rule_apply r ctx =
     (if domain r \<noteq> None \<and> domain r \<noteq> Some (Arg (PyStr (item_domain ctx)))
      then Inr False
      else if intent r \<noteq> None \<and> intent r \<noteq> Some (Arg (PyStr (item_intent ctx)))
      then Inr False
      else
        (case (case entity_types r of
                 None \<Rightarrow> Inr True
               | Some required \<Rightarrow>
                   (let unused = local_entity_types (item_entities ctx) {}
                    in case attr_entity_types ctx of
                         None \<Rightarrow> Inl AttributeError
                       | Some present \<Rightarrow>
                           Inr (\<not> card (required \<inter> present) < card required))) of
           Inl e \<Rightarrow> Inl e
         | Inr False \<Rightarrow> Inr False
         | Inr True \<Rightarrow>
             (case entity_mappings r of
                None \<Rightarrow> Inr True
              | Some mappings \<Rightarrow>
                  (case collect_matched mappings (item_entities ctx) {} of
                     Inl e \<Rightarrow> Inl e
                   | Inr matched \<Rightarrow>
                       Inr (\<not> card matched < card (dom mappings))))))"

text \<open>The property \<^verbatim>\<open>complexity\<close>; \<^verbatim>\<open>1 << k\<close> is \<open>push_bit k 1\<close>.\<close>

definition complexity :: "'v rule \<Rightarrow> int" where
  "complexity r =
     (if truthy (domain r) then 1 else 0)
     + (if truthy (intent r) then push_bit 1 1 else 0)
     + (if entity_types r \<noteq> None \<and> entity_types r \<noteq> Some {} then push_bit 2 1 else 0)
     + (if entity_mappings r \<noteq> None \<and> entity_mappings r \<noteq> Some Map.empty
        then push_bit 3 1 else 0)"

subsection \<open>DialogueResponder\<close>

text \<open>
  A client action as \<^verbatim>\<open>_reply\<close> builds it:
  \<^verbatim>\<open>{'name': action, 'message': {'text': ...}}\<close>. The responder holds the slots dict and
  the list of actions.
\<close>

record action =
  action_name :: string
  message_text :: string

record responder =
  slots :: "string \<rightharpoonup> string"
  client_actions :: "action list"

definition DialogueResponder_init :: "(string \<rightharpoonup> string) \<Rightarrow> responder" where
  "DialogueResponder_init sl = \<lparr>slots = sl, client_actions = []\<rparr>"

text \<open>
  \<^verbatim>\<open>text.format(**self.slots)\<close> is \<^verbatim>\<open>str.format\<close> of the Python library (CPython 3, a
  64-bit build), called with keyword arguments only. The model follows the library's
  scanner. A template is cut into pieces from the left: literal characters, with
  \<^verbatim>\<open>{{\<close> and \<^verbatim>\<open>}}\<close> standing for one brace, and replacement fields. A field is a
  field name, then an optional \<^verbatim>\<open>!\<close> and a conversion character, then an optional
  \<^verbatim>\<open>:\<close> and a format spec, in which braces nest; inside the field name a \<^verbatim>\<open>[\<close>
  runs to the next \<^verbatim>\<open>]\<close>. Where the scanner raises \<^verbatim>\<open>ValueError\<close> (a lone brace,
  a \<^verbatim>\<open>{\<close> in a field name, a field that does not end) the pieces end with
  \<open>Malformed\<close>. The library scans and substitutes in one pass, so the error of a piece
  comes before anything that follows it. Characters are ASCII; the decimal digits of
  other scripts, which the library also reads as numbers, are outside the model.
\<close>

datatype piece =
    Literal char
  | Replacement string string
    \<comment> \<open>a replacement field: its field name, and its whole text between the braces\<close>
  | Malformed

fun markup_text :: "string \<Rightarrow> piece list"
  and markup_name :: "string \<Rightarrow> string \<Rightarrow> piece list"
  and markup_bracket :: "string \<Rightarrow> string \<Rightarrow> piece list"
  and markup_spec :: "string \<Rightarrow> string \<Rightarrow> nat \<Rightarrow> string \<Rightarrow> piece list" where
  "markup_text [] = []"
| "markup_text (c # cs) =
     (if c = CHR ''{'' then
        (case cs of
           [] \<Rightarrow> [Malformed]
         | d # ds \<Rightarrow> if d = CHR ''{'' then Literal CHR ''{'' # markup_text ds
                    else markup_name [] cs)
      else if c = CHR ''}'' then
        (case cs of
           [] \<Rightarrow> [Malformed]
         | d # ds \<Rightarrow> if d = CHR ''}'' then Literal CHR ''}'' # markup_text ds
                    else [Malformed])
      else Literal c # markup_text cs)"
| "markup_name acc [] = [Malformed]"
| "markup_name acc (c # cs) =
     (if c = CHR ''{'' then [Malformed]
      else if c = CHR ''['' then markup_bracket (c # acc) cs
      else if c = CHR ''}'' then Replacement (rev acc) (rev acc) # markup_text cs
      else if c = CHR '':'' then markup_spec (rev acc) (c # acc) 1 cs
      else if c = CHR ''!'' then
        (case cs of
           [] \<Rightarrow> [Malformed]
         | conversion # cs1 \<Rightarrow>
             (case cs1 of
                [] \<Rightarrow> [Malformed]
              | d # ds \<Rightarrow>
                  if d = CHR ''}'' then
                    Replacement (rev acc) (rev (conversion # c # acc)) # markup_text ds
                  else if d = CHR '':'' then
                    markup_spec (rev acc) (d # conversion # c # acc) 1 ds
                  else [Malformed]))
      else markup_name (c # acc) cs)"
| "markup_bracket acc [] = [Malformed]"
| "markup_bracket acc (c # cs) =
     (if c = CHR '']'' then markup_name (c # acc) cs
      else markup_bracket (c # acc) cs)"
| "markup_spec name acc count [] = [Malformed]"
| "markup_spec name acc count (c # cs) =
     (if c = CHR ''{'' then markup_spec name (c # acc) (count + 1) cs
      else if c = CHR ''}'' then
        (if count - 1 = 0 then Replacement name (rev acc) # markup_text cs
         else markup_spec name (c # acc) (count - 1) cs)
      else markup_spec name (c # acc) count cs)"

text \<open>
  The first part of a field name runs to the first \<^verbatim>\<open>.\<close> or \<^verbatim>\<open>[\<close>. It names the
  argument: a positional one when it is empty or a decimal number, a keyword otherwise.
  \<^verbatim>\<open>get_integer\<close> reads the number and raises \<^verbatim>\<open>ValueError\<close> when it passes
  \<^verbatim>\<open>PY_SSIZE_T_MAX\<close>; \<open>None\<close> says that the text is not a number.
\<close>

definition first_part :: "string \<Rightarrow> string" where
  "first_part name = takeWhile (\<lambda>c. c \<noteq> CHR ''.'' \<and> c \<noteq> CHR ''['') name"

definition PY_SSIZE_T_MAX :: int where
  "PY_SSIZE_T_MAX = 2 ^ 63 - 1"

fun get_integer :: "string \<Rightarrow> int \<Rightarrow> (error + int) option" where
  "get_integer [] accumulator = Some (Inr accumulator)"
| "get_integer (c # cs) accumulator =
     (if c \<in> set ''0123456789'' then
        (let digitval = of_char c - 48
         in if accumulator > (PY_SSIZE_T_MAX - digitval) div 10 then Some (Inl ValueError)
            else get_integer cs (accumulator * 10 + digitval))
      else None)"

definition first_index :: "string \<Rightarrow> (error + int) option" where
  "first_index first = (if first = [] then None else get_integer first 0)"

text \<open>
  The argument that a first part names. \<^verbatim>\<open>format(**slots)\<close> has no positional
  argument, so every index is out of range; a keyword is looked up in the slots. A slot
  value stands for its rendering as text.
\<close>

definition get_argument :: "(string \<rightharpoonup> string) \<Rightarrow> string \<Rightarrow> error + string" where
  "get_argument sl first =
     (case first_index first of
        Some (Inl e) \<Rightarrow> Inl e
      | Some (Inr index) \<Rightarrow> Inl IndexError
      | None \<Rightarrow>
          if first = [] then Inl IndexError
          else (case sl first of None \<Rightarrow> Inl KeyError | Some v \<Rightarrow> Inr v))"

text \<open>
  The text that a field yields. The argument is looked up first. A field that is only a
  name yields the value. What the library does with the value under anything more (an
  attribute or index lookup, a conversion, a format spec, which may hold fields of its
  own) is not modelled: it is the parameter \<open>render\<close>, a function of the text of the
  field, the value and the slots, and every property below holds for every such
  function.
\<close>

type_synonym rendering = "string \<Rightarrow> string \<Rightarrow> (string \<rightharpoonup> string) \<Rightarrow> error + string"

definition format_field ::
  "rendering \<Rightarrow> (string \<rightharpoonup> string) \<Rightarrow> string \<Rightarrow> string \<Rightarrow> error + string" where
  "format_field render sl name source =
     (case get_argument sl (first_part name) of
        Inl e \<Rightarrow> Inl e
      | Inr v \<Rightarrow> if first_part name = source then Inr v else render source v sl)"

fun format_pieces ::
  "rendering \<Rightarrow> (string \<rightharpoonup> string) \<Rightarrow> piece list \<Rightarrow> error + string" where
  "format_pieces render sl [] = Inr []"
| "format_pieces render sl (Literal c # ps) =
     (case format_pieces render sl ps of Inl e \<Rightarrow> Inl e | Inr s \<Rightarrow> Inr (c # s))"
| "format_pieces render sl (Replacement name source # ps) =
     (case format_field render sl name source of
        Inl e \<Rightarrow> Inl e
      | Inr v \<Rightarrow>
          (case format_pieces render sl ps of Inl e \<Rightarrow> Inl e | Inr s \<Rightarrow> Inr (v @ s)))"
| "format_pieces render sl (Malformed # ps) = Inl ValueError"

definition str_format :: "rendering \<Rightarrow> string \<Rightarrow> (string \<rightharpoonup> string) \<Rightarrow> error + string" where
  "str_format render text sl = format_pieces render sl (markup_text text)"

text \<open>
  The argument of \<^verbatim>\<open>reply\<close> and \<^verbatim>\<open>prompt\<close>: one string, or a tuple, a list or a set
  of strings. A set is given by its elements in the order \<^verbatim>\<open>tuple(items)\<close> lists them.
\<close>

datatype text_arg =
    OneStr string
  | TupleOf "string list"
  | ListOf "string list"
  | SetOf "string list"

text \<open>
  \<^verbatim>\<open>random.choice(seq)\<close>: \<^verbatim>\<open>IndexError\<close> on an empty sequence, else the element at a
  random index. The draw of the generator is the argument \<open>rnd\<close>.
\<close>

definition random_choice :: "nat \<Rightarrow> string list \<Rightarrow> error + string" where
  "random_choice rnd seq =
     (if seq = [] then Inl IndexError else Inr (seq ! (rnd mod length seq)))"

text \<open>The static method \<^verbatim>\<open>_choose\<close>.\<close>

fun choose_text :: "nat \<Rightarrow> text_arg \<Rightarrow> error + string" where
  "choose_text rnd (TupleOf items) = random_choice rnd items"
| "choose_text rnd (ListOf items) = random_choice rnd items"
| "choose_text rnd (SetOf items) = random_choice rnd items"
| "choose_text rnd (OneStr items) = Inr items"

definition respond :: "action \<Rightarrow> responder \<Rightarrow> responder" where
  "respond a r = r\<lparr>client_actions := client_actions r @ [a]\<rparr>"

text \<open>
  The method \<^verbatim>\<open>_reply\<close>. The dict passed to \<^verbatim>\<open>respond\<close> is built first, so an error
  of \<^verbatim>\<open>_choose\<close> or of \<^verbatim>\<open>format\<close> leaves before \<^verbatim>\<open>respond\<close> is called. The
  methods take the rendering that \<open>str_format\<close> takes.
\<close>

definition reply_impl ::
  "rendering \<Rightarrow> nat \<Rightarrow> text_arg \<Rightarrow> string \<Rightarrow> responder
     \<Rightarrow> error option \<times> responder" where
  "reply_impl render rnd text act r =
     (case choose_text rnd text of
        Inl e \<Rightarrow> (Some e, r)
      | Inr chosen \<Rightarrow>
          (case str_format render chosen (slots r) of
             Inl e \<Rightarrow> (Some e, r)
           | Inr s \<Rightarrow> (None, respond \<lparr>action_name = act, message_text = s\<rparr> r)))"

definition reply ::
  "rendering \<Rightarrow> nat \<Rightarrow> text_arg \<Rightarrow> responder \<Rightarrow> error option \<times> responder" where
  "reply render rnd text r = reply_impl render rnd text ''show-reply'' r"

definition prompt ::
  "rendering \<Rightarrow> nat \<Rightarrow> text_arg \<Rightarrow> responder \<Rightarrow> error option \<times> responder" where
  "prompt render rnd text r = reply_impl render rnd text ''show-prompt'' r"

definition show_things :: "responder \<Rightarrow> error option \<times> responder" where
  "show_things r = (Some NotImplementedError, r)"

subsection \<open>DialogueManager\<close>

text \<open>
  A handler is a Python function: \<open>handler_ref\<close> is the identity of the function object,
  \<open>handler_name\<close> its \<^verbatim>\<open>__name__\<close>, \<open>arity\<close> the number of positional parameters of
  its \<^verbatim>\<open>def\<close>, and \<open>body\<close> what a call does. The dispatcher passes the handler the
  context, the slots dict and the responder; the responder holds that same dict, so the
  body works on the responder's state, which has both.
\<close>

record 'v handler =
  handler_ref :: nat
  handler_name :: string
  arity :: nat
  body :: "'v req_context \<Rightarrow> responder \<Rightarrow> error option \<times> responder"

record 'v manager =
  handler_map :: "string \<rightharpoonup> 'v handler"
  rules :: "'v rule list"

definition DialogueManager_init :: "'v manager" where
  "DialogueManager_init = \<lparr>handler_map = Map.empty, rules = []\<rparr>"

text \<open>
  The first statement of \<^verbatim>\<open>add_dialogue_rule\<close>: a missing name is the handler's
  \<^verbatim>\<open>__name__\<close>, and \<^verbatim>\<open>None\<close> has no such attribute.
\<close>

definition state_name :: "string option \<Rightarrow> 'v handler option \<Rightarrow> error + string" where
  "state_name name handler =
     (case name of
        Some n \<Rightarrow> Inr n
      | None \<Rightarrow> (case handler of None \<Rightarrow> Inl AttributeError
                              | Some h \<Rightarrow> Inr (handler_name h)))"

text \<open>
  \<^verbatim>\<open>add_dialogue_rule(name, handler, **kwargs)\<close>. The rule is appended and the list sorted
  before the handler table is looked at; \<^verbatim>\<open>list.sort\<close> is stable, as \<open>sort_key\<close> is.
\<close>

definition add_dialogue_rule ::
  "string option \<Rightarrow> 'v handler option \<Rightarrow> (string \<rightharpoonup> 'v arg) \<Rightarrow> 'v manager
     \<Rightarrow> error option \<times> 'v manager" where
  "add_dialogue_rule name handler kwargs m =
     (case state_name name handler of
        Inl e \<Rightarrow> (Some e, m)
      | Inr n \<Rightarrow>
          (case DialogueStateRule_init n kwargs of
             Inl e \<Rightarrow> (Some e, m)
           | Inr rule \<Rightarrow>
               (let m1 = m\<lparr>rules := sort_key complexity (rules m @ [rule])\<rparr>
                in case handler of
                     None \<Rightarrow> (None, m1)
                   | Some h \<Rightarrow>
                       (case handler_map m1 n of
                          None \<Rightarrow> (None, m1\<lparr>handler_map := (handler_map m1)(n \<mapsto> h)\<rparr>)
                        | Some old_handler \<Rightarrow>
                            if old_handler \<noteq> h then (Some AssertionError, m1)
                            else (None, m1\<lparr>handler_map := (handler_map m1)(n \<mapsto> h)\<rparr>)))))"

text \<open>
  \<^verbatim>\<open>_default_handler\<close> is a static method declared with the two parameters
  \<^verbatim>\<open>(self, context)\<close>; its body is \<^verbatim>\<open>pass\<close>.
\<close>

definition default_handler :: "'v handler" where
  "default_handler =
     \<lparr>handler_ref = 0, handler_name = ''_default_handler'', arity = 2,
      body = (\<lambda>ctx r. (None, r))\<rparr>"

text \<open>The loop of \<^verbatim>\<open>apply_handler\<close>: the state of the first rule that applies.\<close>

fun first_match :: "'v rule list \<Rightarrow> 'v req_context \<Rightarrow> error + string option" where
  "first_match [] ctx = Inr None"
| "first_match (r # rs) ctx =
     (case rule_apply r ctx of
        Inl e \<Rightarrow> Inl e
      | Inr True \<Rightarrow> Inr (Some (dialogue_state r))
      | Inr False \<Rightarrow> first_match rs ctx)"

text \<open>The call \<^verbatim>\<open>handler(context, slots, responder)\<close>, with three positional arguments.\<close>

definition call_handler ::
  "'v handler \<Rightarrow> 'v req_context \<Rightarrow> responder \<Rightarrow> error option \<times> responder" where
  "call_handler h ctx r = (if arity h \<noteq> 3 then (Some TypeError, r) else body h ctx r)"

record dispatch_result =
  result_dialogue_state :: "string option"
  result_client_actions :: "action list"

definition apply_handler :: "'v manager \<Rightarrow> 'v req_context \<Rightarrow> error + dispatch_result" where
  "apply_handler m ctx =
     (case first_match (rules m) ctx of
        Inl e \<Rightarrow> Inl e
      | Inr state \<Rightarrow>
          (case (case state of
                   None \<Rightarrow> Inr default_handler
                 | Some n \<Rightarrow> (case handler_map m n of None \<Rightarrow> Inl KeyError
                                                   | Some h \<Rightarrow> Inr h)) of
             Inl e \<Rightarrow> Inl e
           | Inr h \<Rightarrow>
               (case call_handler h ctx (DialogueResponder_init Map.empty) of
                  (Some e, r) \<Rightarrow> Inl e
                | (None, r) \<Rightarrow>
                    Inr \<lparr>result_dialogue_state = state,
                         result_client_actions = client_actions r\<rparr>)))"

text \<open>
  A run of registrations from the initial manager, stopping at the first exception. A
  registration is the triple of arguments of \<^verbatim>\<open>add_dialogue_rule\<close>.
\<close>

type_synonym 'v registration = "string option \<times> 'v handler option \<times> (string \<rightharpoonup> 'v arg)"

fun register_all :: "'v registration list \<Rightarrow> 'v manager \<Rightarrow> error + 'v manager" where
  "register_all [] m = Inr m"
| "register_all ((name, handler, kwargs) # regs) m =
     (case add_dialogue_rule name handler kwargs m of
        (Some e, m') \<Rightarrow> Inl e
      | (None, m') \<Rightarrow> register_all regs m')"

section \<open>Notions used to state the properties\<close>

text \<open>The rule that a registration constructs, when it gets that far.\<close>

definition rule_of :: "'v registration \<Rightarrow> 'v rule option" where
  "rule_of reg =
     (case reg of (name, handler, kwargs) \<Rightarrow>
        (case state_name name handler of
           Inl e \<Rightarrow> None
         | Inr n \<Rightarrow> (case DialogueStateRule_init n kwargs of
                       Inl e \<Rightarrow> None
                     | Inr r \<Rightarrow> Some r)))"

fun registered_rules :: "'v registration list \<Rightarrow> 'v rule list" where
  "registered_rules [] = []"
| "registered_rules (reg # regs) =
     (case rule_of reg of
        None \<Rightarrow> registered_rules regs
      | Some r \<Rightarrow> r # registered_rules regs)"

text \<open>
  The keys of a template: the first parts of the field names of its replacement fields,
  from the left, up to the first place where the scanner raises.
\<close>

fun piece_keys :: "piece list \<Rightarrow> string list" where
  "piece_keys [] = []"
| "piece_keys (Literal c # ps) = piece_keys ps"
| "piece_keys (Replacement name source # ps) = first_part name # piece_keys ps"
| "piece_keys (Malformed # ps) = piece_keys ps"

definition template_keys :: "string \<Rightarrow> string list" where
  "template_keys t = piece_keys (markup_text t)"

text \<open>The strings that \<^verbatim>\<open>_choose\<close> can return for an argument.\<close>

fun candidates :: "text_arg \<Rightarrow> string list" where
  "candidates (OneStr s) = [s]"
| "candidates (TupleOf items) = items"
| "candidates (ListOf items) = items"
| "candidates (SetOf items) = items"

subsection \<open>Concrete inputs\<close>

text \<open>
  The rendering passed in the examples, none of which has a field that reaches it: the
  value as it is, which is what the library yields for a string under the conversion
  \<^verbatim>\<open>!s\<close>.
\<close>

definition render_str :: rendering where
  "render_str source v sl = Inr v"

definition greet_handler :: "string handler" where
  "greet_handler =
     \<lparr>handler_ref = 1, handler_name = ''greet'', arity = 3,
      body = (\<lambda>ctx r. reply render_str 0 (OneStr ''Hello'') r)\<rparr>"

definition ask_handler :: "string handler" where
  "ask_handler =
     \<lparr>handler_ref = 2, handler_name = ''ask'', arity = 3,
      body = (\<lambda>ctx r. prompt render_str 0 (OneStr ''Which city?'') r)\<rparr>"

text \<open>Scenario A: a rule on the domain alone, then a rule on the domain and the intent.\<close>

definition scenario_A_registrations ::
  "string \<Rightarrow> 'v handler \<Rightarrow> string \<Rightarrow> 'v handler \<Rightarrow> 'v registration list" where
  "scenario_A_registrations n1 h1 n2 h2 =
     [(Some n1, Some h1, [''domain'' \<mapsto> PyStr ''weather'']),
      (Some n2, Some h2,
         [''domain'' \<mapsto> PyStr ''weather'', ''intent'' \<mapsto> PyStr ''forecast''])]"

definition scenario_A_context :: "'v req_context" where
  "scenario_A_context = dict_context ''weather'' ''forecast'' []"

definition scenario_A_manager ::
  "string \<Rightarrow> 'v handler \<Rightarrow> string \<Rightarrow> 'v handler \<Rightarrow> 'v manager" where
  "scenario_A_manager n1 h1 n2 h2 =
     \<lparr>handler_map = [n1 \<mapsto> h1, n2 \<mapsto> h2],
      rules = [\<lparr>dialogue_state = n1, domain = Some (Arg (PyStr ''weather'')),
                intent = None, entity_types = None, entity_mappings = None\<rparr>,
               \<lparr>dialogue_state = n2, domain = Some (Arg (PyStr ''weather'')),
                intent = Some (Arg (PyStr ''forecast'')),
                entity_types = None, entity_mappings = None\<rparr>]\<rparr>"

text \<open>The two rules of scenario A, under fixed names.\<close>

definition weather_rule :: "string rule" where
  "weather_rule =
     \<lparr>dialogue_state = ''weather'', domain = Some (Arg (PyStr ''weather'')),
      intent = None, entity_types = None, entity_mappings = None\<rparr>"

definition forecast_rule :: "string rule" where
  "forecast_rule =
     \<lparr>dialogue_state = ''forecast'', domain = Some (Arg (PyStr ''weather'')),
      intent = Some (Arg (PyStr ''forecast'')),
      entity_types = None, entity_mappings = None\<rparr>"

definition music_rule :: "string rule" where
  "music_rule =
     \<lparr>dialogue_state = ''music'', domain = Some (Arg (PyStr ''music'')),
      intent = None, entity_types = None, entity_mappings = None\<rparr>"

text \<open>Scenario B: a rule whose \<^verbatim>\<open>entity_mappings\<close> is \<^verbatim>\<open>{'city': 'Paris'}\<close>.\<close>

definition city_rule :: "string rule" where
  "city_rule =
     \<lparr>dialogue_state = ''city'', domain = None, intent = None, entity_types = None,
      entity_mappings = Some [''city'' \<mapsto> ''Paris'']\<rparr>"

text \<open>Scenario C: a rule whose \<^verbatim>\<open>entity_types\<close> is \<^verbatim>\<open>{'city', 'date'}\<close>.\<close>

definition city_date_rule :: "string rule" where
  "city_date_rule =
     \<lparr>dialogue_state = ''trip'', domain = None, intent = None,
      entity_types = Some {''city'', ''date''}, entity_mappings = None\<rparr>"

text \<open>A rule on the empty domain, as \<^verbatim>\<open>DialogueStateRule('s', domain='')\<close> builds it.\<close>

definition empty_domain_rule :: "string rule" where
  "empty_domain_rule =
     \<lparr>dialogue_state = ''s'', domain = Some (Arg (PyStr [])), intent = None,
      entity_types = None, entity_mappings = None\<rparr>"

text \<open>Three registrations, the most complex rule first.\<close>

definition example_registrations :: "string registration list" where
  "example_registrations =
     [(Some ''forecast'', Some ask_handler,
         [''domain'' \<mapsto> PyStr ''weather'', ''intent'' \<mapsto> PyStr ''forecast'']),
      (Some ''weather'', Some greet_handler, [''domain'' \<mapsto> PyStr ''weather'']),
      (Some ''music'', Some greet_handler, [''domain'' \<mapsto> PyStr ''music''])]"

definition example_manager :: "string manager" where
  "example_manager =
     \<lparr>handler_map = [''forecast'' \<mapsto> ask_handler, ''weather'' \<mapsto> greet_handler,
                     ''music'' \<mapsto> greet_handler],
      rules = [\<lparr>dialogue_state = ''weather'', domain = Some (Arg (PyStr ''weather'')),
                intent = None, entity_types = None, entity_mappings = None\<rparr>,
               \<lparr>dialogue_state = ''music'', domain = Some (Arg (PyStr ''music'')),
                intent = None, entity_types = None, entity_mappings = None\<rparr>,
               \<lparr>dialogue_state = ''forecast'', domain = Some (Arg (PyStr ''weather'')),
                intent = Some (Arg (PyStr ''forecast'')),
                entity_types = None, entity_mappings = None\<rparr>]\<rparr>"

text \<open>A manager that holds one handler, for the state \<^verbatim>\<open>greet\<close>.\<close>

definition greet_manager :: "string manager" where
  "greet_manager =
     \<lparr>handler_map = [''greet'' \<mapsto> greet_handler],
      rules = [\<lparr>dialogue_state = ''greet'', domain = None, intent = None,
                entity_types = None, entity_mappings = None\<rparr>]\<rparr>"

text \<open>Scenario D: a responder whose slots are \<^verbatim>\<open>{'name': 'Ana'}\<close>.\<close>

definition ana_responder :: responder where
  "ana_responder = DialogueResponder_init [''name'' \<mapsto> ''Ana'']"

text \<open>Keyword arguments with both \<^verbatim>\<open>entity\<close> and \<^verbatim>\<open>entities\<close>.\<close>

definition entity_and_entities_kwargs :: "string \<rightharpoonup> string arg" where
  "entity_and_entities_kwargs =
     [''entity'' \<mapsto> PyStr ''city'', ''entities'' \<mapsto> PyList [''city'', ''date'']]"

section \<open>Rule construction\<close>

lemma init_no_kwargs:
  "DialogueStateRule_init n Map.empty =
     Inr \<lparr>dialogue_state = n, domain = None, intent = None,
          entity_types = None, entity_mappings = None\<rparr>"
  by (simp add: DialogueStateRule_init_def key_kwargs_def)

lemma init_domain_only:
  "DialogueStateRule_init n [''domain'' \<mapsto> PyStr d] =
     Inr \<lparr>dialogue_state = n, domain = Some (Arg (PyStr d)), intent = None,
          entity_types = None, entity_mappings = None\<rparr>"
  by (simp add: DialogueStateRule_init_def key_kwargs_def)

lemma init_domain_intent:
  "DialogueStateRule_init n [''domain'' \<mapsto> PyStr d, ''intent'' \<mapsto> PyStr i] =
     Inr \<lparr>dialogue_state = n, domain = Some (Arg (PyStr d)),
          intent = Some (Arg (PyStr i)),
          entity_types = None, entity_mappings = None\<rparr>"
  by (simp add: DialogueStateRule_init_def key_kwargs_def)

lemma init_entity_and_entities:
  "''entity'' \<in> dom kwargs \<Longrightarrow> ''entities'' \<in> dom kwargs \<Longrightarrow>
     DialogueStateRule_init s kwargs = Inl ValueError"
  by (simp add: DialogueStateRule_init_def key_kwargs_def)

lemma resolve_ignores_other_keys:
  assumes "k \<notin> {''domain'', ''intent'', ''entity'', ''entities''}"
  shows "resolve key_kwargs (kwargs(k \<mapsto> x)) res = resolve key_kwargs kwargs res"
proof -
  from assms have "''domain'' \<noteq> k" "''intent'' \<noteq> k" "''entity'' \<noteq> k" "''entities'' \<noteq> k"
    by auto
  then have look:
    "(kwargs(k \<mapsto> x)) ''domain'' = kwargs ''domain''"
    "(kwargs(k \<mapsto> x)) ''intent'' = kwargs ''intent''"
    "(kwargs(k \<mapsto> x)) ''entity'' = kwargs ''entity''"
    "(kwargs(k \<mapsto> x)) ''entities'' = kwargs ''entities''"
    by (simp_all del: fun_upd_apply add: fun_upd_other)
  show ?thesis
    by (simp only: key_kwargs_def resolve.simps look domIff)
qed

lemma init_ignores_other_keys:
  "k \<notin> {''domain'', ''intent'', ''entity'', ''entities''} \<Longrightarrow>
     DialogueStateRule_init s (kwargs(k \<mapsto> x)) = DialogueStateRule_init s kwargs"
  by (simp add: DialogueStateRule_init_def resolve_ignores_other_keys)

section \<open>Registration keeps the rules sorted\<close>

lemma add_dialogue_rule_rules:
  assumes "add_dialogue_rule name handler kwargs m = (None, m')"
  shows "\<exists>r. rule_of (name, handler, kwargs) = Some r
            \<and> rules m' = sort_key complexity (rules m @ [r])"
  using assms
  by (auto simp: add_dialogue_rule_def rule_of_def Let_def
           split: sum.splits option.splits if_splits)

lemma register_all_step:
  assumes "register_all (reg # regs) m0 = Inr m"
  obtains r m1 where "rule_of reg = Some r"
    and "rules m1 = sort_key complexity (rules m0 @ [r])"
    and "register_all regs m1 = Inr m"
proof -
  obtain name handler kwargs where reg: "reg = (name, handler, kwargs)"
    by (cases reg) auto
  with assms obtain m1 where
    step: "add_dialogue_rule name handler kwargs m0 = (None, m1)"
    and rest: "register_all regs m1 = Inr m"
    by (auto split: prod.splits option.splits)
  from add_dialogue_rule_rules[OF step] reg rest that show thesis
    by blast
qed

lemma register_all_stable:
  "register_all regs m0 = Inr m \<Longrightarrow>
     filter (\<lambda>r. complexity r = k) (rules m) =
       filter (\<lambda>r. complexity r = k) (rules m0 @ registered_rules regs)"
proof (induction regs arbitrary: m0)
  case Nil
  then show ?case by simp
next
  case (Cons reg regs)
  from Cons.prems obtain r m1 where
    r: "rule_of reg = Some r" "rules m1 = sort_key complexity (rules m0 @ [r])"
    and rest: "register_all regs m1 = Inr m"
    by (rule register_all_step)
  have "filter (\<lambda>r. complexity r = k) (rules m) =
          filter (\<lambda>r. complexity r = k) (rules m1 @ registered_rules regs)"
    by (rule Cons.IH[OF rest])
  also have "\<dots> = filter (\<lambda>r. complexity r = k) (rules m0 @ [r] @ registered_rules regs)"
    by (simp add: r(2) sort_key_stable)
  finally show ?case using r(1) by simp
qed

lemma register_all_sorted:
  "register_all regs m0 = Inr m \<Longrightarrow> sorted (map complexity (rules m0)) \<Longrightarrow>
     sorted (map complexity (rules m))"
proof (induction regs arbitrary: m0)
  case Nil
  then show ?case by simp
next
  case (Cons reg regs)
  from Cons.prems(1) obtain r m1 where
    r: "rules m1 = sort_key complexity (rules m0 @ [r])"
    and rest: "register_all regs m1 = Inr m"
    by (rule register_all_step)
  from r have "sorted (map complexity (rules m1))"
    by simp
  with rest show ?case by (rule Cons.IH)
qed

lemma scenario_A_registered:
  assumes "n1 \<noteq> n2"
  shows "register_all (scenario_A_registrations n1 h1 n2 h2) DialogueManager_init =
           Inr (scenario_A_manager n1 h1 n2 h2)"
  using assms
  by (simp add: scenario_A_registrations_def add_dialogue_rule_def state_name_def
        init_domain_only init_domain_intent DialogueManager_init_def complexity_def
        scenario_A_manager_def)

lemma greet_ask_distinct: "greet_handler \<noteq> ask_handler"
  by (simp add: greet_handler_def ask_handler_def)

lemma example_registered:
  "register_all example_registrations DialogueManager_init = Inr example_manager"
  by (simp add: example_registrations_def add_dialogue_rule_def state_name_def
        init_domain_only init_domain_intent DialogueManager_init_def complexity_def
        example_manager_def fun_upd_twist)

section \<open>Template substitution\<close>

lemma get_argument_missing: "sl k = None \<Longrightarrow> \<exists>e. get_argument sl k = Inl e"
  by (auto simp: get_argument_def split: option.splits sum.splits)

lemma get_argument_keyword:
  "k \<noteq> [] \<Longrightarrow> first_index k = None \<Longrightarrow> sl k = None \<Longrightarrow> get_argument sl k = Inl KeyError"
  by (simp add: get_argument_def)

text \<open>A template with a field whose key the slots lack does not format.\<close>

lemma format_pieces_missing_key:
  "k \<in> set (piece_keys ps) \<Longrightarrow> sl k = None \<Longrightarrow> \<exists>e. format_pieces render sl ps = Inl e"
proof (induction ps rule: piece_keys.induct)
  case 1
  then show ?case by simp
next
  case (2 c ps)
  then show ?case by (auto split: sum.splits)
next
  case (3 name source ps)
  show ?case
  proof (cases "first_part name = k")
    case True
    with get_argument_missing[of sl k, OF 3(3)] show ?thesis
      by (auto simp: format_field_def)
  next
    case False
    with 3 show ?thesis by (auto split: sum.splits)
  qed
next
  case (4 ps)
  then show ?case by simp
qed

text \<open>The pieces are substituted from the left: what precedes a piece comes first.\<close>

lemma format_pieces_append:
  "format_pieces render sl (pre @ ps) =
     (case format_pieces render sl pre of
        Inl e \<Rightarrow> Inl e
      | Inr s \<Rightarrow> (case format_pieces render sl ps of Inl e \<Rightarrow> Inl e | Inr s' \<Rightarrow> Inr (s @ s')))"
  by (induction render sl pre rule: format_pieces.induct) (auto split: sum.splits)

lemma format_pieces_first_failure:
  assumes "format_pieces render sl pre = Inr s"
    and "first_part name \<noteq> []" and "first_index (first_part name) = None"
    and "sl (first_part name) = None"
  shows "format_pieces render sl (pre @ Replacement name source # post) = Inl KeyError"
  using assms
  by (simp add: format_pieces_append format_field_def get_argument_keyword)

lemma choose_text_candidates:
  "candidates ta \<noteq> [] \<Longrightarrow> \<exists>t \<in> set (candidates ta). choose_text rnd ta = Inr t"
  by (cases ta) (auto simp: random_choice_def)

lemma markup_hi_name:
  "markup_text ''Hi {name}'' =
     [Literal CHR ''H'', Literal CHR ''i'', Literal CHR '' ''] @ Replacement ''name'' ''name'' # []"
  by simp

lemma markup_hello_name:
  "markup_text ''Hello {name}'' =
     [Literal CHR ''H'', Literal CHR ''e'', Literal CHR ''l'', Literal CHR ''l'',
      Literal CHR ''o'', Literal CHR '' ''] @ Replacement ''name'' ''name'' # []"
  by simp

lemma markup_aligned_city:
  "markup_text ''{city:>5} {name}'' =
     [] @ Replacement ''city'' ''city:>5'' # [Literal CHR '' '', Replacement ''name'' ''name'']"
  by simp

lemma markup_positional_then_name:
  "markup_text ''{} {name}'' = [Replacement [] [], Literal CHR '' '', Replacement ''name'' ''name'']"
  by simp

lemma first_part_name: "first_part ''name'' = ''name''" and first_part_city: "first_part ''city'' = ''city''"
  by (simp_all add: first_part_def)

lemma first_index_name: "first_index ''name'' = None" and first_index_city: "first_index ''city'' = None"
  by (simp_all add: first_index_def)

lemma str_format_hello_name:
  "str_format render ''Hello {name}'' [''name'' \<mapsto> ''Ana''] = Inr ''Hello Ana''"
  by (simp add: str_format_def markup_hello_name format_field_def get_argument_def
        first_part_name first_index_name del: markup_text.simps)

section \<open>Dispatch\<close>

lemma first_match_skips:
  "\<forall>p \<in> set pre. rule_apply p ctx = Inr False \<Longrightarrow>
     first_match (pre @ rs) ctx = first_match rs ctx"
  by (induction pre) simp_all

lemma scenario_A_registered_reversed:
  assumes "n1 \<noteq> n2"
  shows "\<exists>m'. register_all (rev (scenario_A_registrations n1 h1 n2 h2)) DialogueManager_init
                 = Inr m'
              \<and> rules m' = rules (scenario_A_manager n1 h1 n2 h2)"
  using assms
  by (simp add: scenario_A_registrations_def add_dialogue_rule_def state_name_def
        init_domain_only init_domain_intent DialogueManager_init_def complexity_def
        scenario_A_manager_def)

text \<open>
  Claim C1. The scan of \<^verbatim>\<open>apply_handler\<close> takes the rule list in its order, passes
  over every rule that does not apply, and stops at the first rule that applies: that
  rule's state is selected whatever rules come after it. Scenario A: a rule on the
  domain \<^verbatim>\<open>weather\<close> alone (complexity 1) and a rule on the domain \<^verbatim>\<open>weather\<close> and
  the intent \<^verbatim>\<open>forecast\<close> (complexity 3) are registered under distinct state names.
  Registered in that order, or in the opposite one, the sort puts the domain-only rule
  first. Both rules apply to the context
  \<^verbatim>\<open>{domain: weather, intent: forecast, entities: []}\<close>, so the state selected is the
  one of the domain-only rule, and the dispatch calls that rule's handler and returns
  its state name. The second rule does not apply to another intent, and is then passed
  over when it stands first; no rule applies to another domain.
\<close>

theorem scenario_A_domain_only_rule_wins:
  fixes h1 h2 :: "'v handler" and pre post :: "'v rule list"
  assumes "n1 \<noteq> n2"
    and "\<forall>p \<in> set pre. rule_apply p ctx = Inr False"
    and "rule_apply r ctx = Inr True"
  shows "first_match (pre @ r # post) ctx = Inr (Some (dialogue_state r))
       \<and> (\<exists>m m' r1 r2.
           register_all (scenario_A_registrations n1 h1 n2 h2) DialogueManager_init = Inr m
         \<and> register_all (rev (scenario_A_registrations n1 h1 n2 h2)) DialogueManager_init
              = Inr m'
         \<and> rules m = [r1, r2] \<and> rules m' = [r1, r2]
         \<and> dialogue_state r1 = n1 \<and> complexity r1 = 1
         \<and> dialogue_state r2 = n2 \<and> complexity r2 = 3
         \<and> rule_apply r1 scenario_A_context = Inr True
         \<and> rule_apply r2 scenario_A_context = Inr True
         \<and> (\<forall>later. first_match (r1 # later) scenario_A_context = Inr (Some n1))
         \<and> rule_apply r2 (dict_context ''weather'' ''alerts'' []) = Inr False
         \<and> first_match [r2, r1] (dict_context ''weather'' ''alerts'' []) = Inr (Some n1)
         \<and> first_match (rules m) (dict_context ''music'' ''play'' []) = Inr None
         \<and> apply_handler m scenario_A_context =
             (case call_handler h1 scenario_A_context (DialogueResponder_init Map.empty) of
                (Some e, r) \<Rightarrow> Inl e
              | (None, r) \<Rightarrow>
                  Inr \<lparr>result_dialogue_state = Some n1,
                       result_client_actions = client_actions r\<rparr>))"
proof -
  let ?m = "scenario_A_manager n1 h1 n2 h2"
  let ?r1 = "\<lparr>dialogue_state = n1, domain = Some (Arg (PyStr ''weather'')),
               intent = None, entity_types = None, entity_mappings = None\<rparr> :: 'v rule"
  let ?r2 = "\<lparr>dialogue_state = n2, domain = Some (Arg (PyStr ''weather'')),
               intent = Some (Arg (PyStr ''forecast'')),
               entity_types = None, entity_mappings = None\<rparr> :: 'v rule"
  have general: "first_match (pre @ r # post) ctx = Inr (Some (dialogue_state r))"
    using assms(2,3) by (simp add: first_match_skips)
  have reg: "register_all (scenario_A_registrations n1 h1 n2 h2) DialogueManager_init = Inr ?m"
    using assms(1) by (rule scenario_A_registered)
  have rs: "rules ?m = [?r1, ?r2]"
    by (simp add: scenario_A_manager_def)
  from scenario_A_registered_reversed[OF assms(1), of h1 h2] obtain m' where
    reg': "register_all (rev (scenario_A_registrations n1 h1 n2 h2)) DialogueManager_init
             = Inr m'"
    and rs': "rules m' = [?r1, ?r2]"
    unfolding rs by blast
  have a1: "rule_apply ?r1 scenario_A_context = Inr True"
    by (simp add: rule_apply_def scenario_A_context_def dict_context_def)
  have a2: "rule_apply ?r2 scenario_A_context = Inr True"
    by (simp add: rule_apply_def scenario_A_context_def dict_context_def)
  have first: "first_match (?r1 # later) scenario_A_context = Inr (Some n1)" for later
    by (simp add: a1)
  have c1: "complexity ?r1 = 1" and c2: "complexity ?r2 = 3"
    by (simp_all add: complexity_def)
  have other: "rule_apply ?r2 (dict_context ''weather'' ''alerts'' []) = Inr False"
    by (simp add: rule_apply_def dict_context_def)
  have skipped: "first_match [?r2, ?r1] (dict_context ''weather'' ''alerts'' []) = Inr (Some n1)"
    by (simp add: rule_apply_def dict_context_def)
  have none: "first_match (rules ?m) (dict_context ''music'' ''play'' []) = Inr None"
    by (simp add: rs rule_apply_def dict_context_def)
  have h: "handler_map ?m n1 = Some h1"
    using assms(1) by (simp add: scenario_A_manager_def)
  have disp: "apply_handler ?m scenario_A_context =
             (case call_handler h1 scenario_A_context (DialogueResponder_init Map.empty) of
                (Some e, r) \<Rightarrow> Inl e
              | (None, r) \<Rightarrow>
                  Inr \<lparr>result_dialogue_state = Some n1,
                       result_client_actions = client_actions r\<rparr>)"
    by (simp add: apply_handler_def rs a1 h)
  have "\<exists>m m' r1 r2.
           register_all (scenario_A_registrations n1 h1 n2 h2) DialogueManager_init = Inr m
         \<and> register_all (rev (scenario_A_registrations n1 h1 n2 h2)) DialogueManager_init
              = Inr m'
         \<and> rules m = [r1, r2] \<and> rules m' = [r1, r2]
         \<and> dialogue_state r1 = n1 \<and> complexity r1 = 1
         \<and> dialogue_state r2 = n2 \<and> complexity r2 = 3
         \<and> rule_apply r1 scenario_A_context = Inr True
         \<and> rule_apply r2 scenario_A_context = Inr True
         \<and> (\<forall>later. first_match (r1 # later) scenario_A_context = Inr (Some n1))
         \<and> rule_apply r2 (dict_context ''weather'' ''alerts'' []) = Inr False
         \<and> first_match [r2, r1] (dict_context ''weather'' ''alerts'' []) = Inr (Some n1)
         \<and> first_match (rules m) (dict_context ''music'' ''play'' []) = Inr None
         \<and> apply_handler m scenario_A_context =
             (case call_handler h1 scenario_A_context (DialogueResponder_init Map.empty) of
                (Some e, r) \<Rightarrow> Inl e
              | (None, r) \<Rightarrow>
                  Inr \<lparr>result_dialogue_state = Some n1,
                       result_client_actions = client_actions r\<rparr>)"
    using reg reg' rs rs' a1 a2 first c1 c2 other skipped none disp
    by (intro exI[of _ ?m] exI[of _ m'] exI[of _ ?r1] exI[of _ ?r2]) simp
  with general show ?thesis by (rule conjI)
qed

theorem scenario_A_domain_only_rule_wins_witness:
  "''weather_any'' \<noteq> ''weather_forecast''
   \<and> rule_apply music_rule scenario_A_context = Inr False
   \<and> rule_apply weather_rule scenario_A_context = Inr True
   \<and> first_match ([music_rule] @ weather_rule # [forecast_rule]) scenario_A_context
       = Inr (Some ''weather'')
   \<and> (\<exists>m m' r1 r2.
      register_all
        (scenario_A_registrations ''weather_any'' greet_handler ''weather_forecast'' ask_handler)
        DialogueManager_init = Inr m
    \<and> register_all
        (rev (scenario_A_registrations ''weather_any'' greet_handler
                ''weather_forecast'' ask_handler))
        DialogueManager_init = Inr m'
    \<and> rules m = [r1, r2] \<and> rules m' = [r1, r2]
    \<and> dialogue_state r1 = ''weather_any'' \<and> complexity r1 = 1
    \<and> dialogue_state r2 = ''weather_forecast'' \<and> complexity r2 = 3
    \<and> rule_apply r1 scenario_A_context = Inr True
    \<and> rule_apply r2 scenario_A_context = Inr True
    \<and> (\<forall>later. first_match (r1 # later) scenario_A_context = Inr (Some ''weather_any''))
    \<and> rule_apply r2 (dict_context ''weather'' ''alerts'' []) = Inr False
    \<and> first_match [r2, r1] (dict_context ''weather'' ''alerts'' [])
        = Inr (Some ''weather_any'')
    \<and> first_match (rules m) (dict_context ''music'' ''play'' []) = Inr None
    \<and> apply_handler m scenario_A_context =
        (case call_handler greet_handler scenario_A_context
                (DialogueResponder_init Map.empty) of
           (Some e, r) \<Rightarrow> Inl e
         | (None, r) \<Rightarrow>
             Inr \<lparr>result_dialogue_state = Some ''weather_any'',
                  result_client_actions = client_actions r\<rparr>))"
proof -
  have ne: "''weather_any'' \<noteq> ''weather_forecast''"
    by simp
  have skip: "\<forall>p \<in> set [music_rule]. rule_apply p scenario_A_context = Inr False"
    by (simp add: music_rule_def rule_apply_def scenario_A_context_def dict_context_def)
  have hit: "rule_apply weather_rule scenario_A_context = Inr True"
    by (simp add: weather_rule_def rule_apply_def scenario_A_context_def dict_context_def)
  have name: "dialogue_state weather_rule = ''weather''"
    by (simp add: weather_rule_def)
  from scenario_A_domain_only_rule_wins[OF ne skip hit, where ?h1.0 = greet_handler
      and ?h2.0 = ask_handler and post = "[forecast_rule]"] ne skip hit name
  show ?thesis by simp
qed

text \<open>
  Claim C2. The claim says that a context which no rule matches is dispatched to the
  default handler and that the dispatch returns the state \<^verbatim>\<open>None\<close> with no action. In
  the code the default handler takes two parameters and is called with three arguments,
  so the dispatch raises \<^verbatim>\<open>TypeError\<close>: on the manager without rules for every context,
  and on a manager with rules for a context that none of them matches.
\<close>

theorem no_match_dispatch_raises:
  "apply_handler DialogueManager_init ctx = Inl TypeError
   \<and> first_match (rules example_manager) (dict_context ''sports'' ''score'' []) = Inr None
   \<and> apply_handler example_manager (dict_context ''sports'' ''score'' []) = Inl TypeError"
proof -
  have none: "first_match (rules example_manager) (dict_context ''sports'' ''score'' [])
                = Inr None"
    by (simp add: example_manager_def rule_apply_def dict_context_def)
  have "apply_handler DialogueManager_init ctx = Inl TypeError"
    by (simp add: apply_handler_def DialogueManager_init_def call_handler_def
          default_handler_def)
  moreover have
    "apply_handler example_manager (dict_context ''sports'' ''score'' []) = Inl TypeError"
    by (simp add: apply_handler_def none call_handler_def default_handler_def)
  ultimately show ?thesis using none by simp
qed

section \<open>Matching on entities\<close>

text \<open>
  Claim C3. Scenario B says that the rule with the entity mapping \<^verbatim>\<open>{'city': 'Paris'}\<close>
  applies to the entities \<^verbatim>\<open>[{type: city, value: Paris}]\<close> and not to
  \<^verbatim>\<open>[{type: city, value: London}]\<close> nor to \<^verbatim>\<open>[]\<close>. In the code the loop reads
  \<^verbatim>\<open>entity.type\<close>, an attribute that a dict does not have: on the first two contexts
  \<^verbatim>\<open>apply\<close> raises \<^verbatim>\<open>AttributeError\<close>, and only on the empty list does it return
  \<^verbatim>\<open>False\<close>. The constructor does not build the rule either: it turns the mapping into
  a frozenset and then rejects the frozenset with \<^verbatim>\<open>ValueError\<close>.
\<close>

theorem scenario_B_apply_raises:
  "rule_apply city_rule (dict_context ''travel'' ''book'' [dict_entity ''city'' ''Paris''])
     = Inl AttributeError
   \<and> rule_apply city_rule (dict_context ''travel'' ''book'' [dict_entity ''city'' ''London''])
     = Inl AttributeError
   \<and> rule_apply city_rule (dict_context ''travel'' ''book'' []) = Inr False
   \<and> DialogueStateRule_init ''city'' [''entities'' \<mapsto> PyDict [''city'' \<mapsto> ''Paris'']]
     = (Inl ValueError :: error + string rule)"
  by (simp add: rule_apply_def city_rule_def dict_context_def dict_entity_def
        DialogueStateRule_init_def key_kwargs_def)

text \<open>
  Claim C4. Scenario C says that the rule with the entity types \<^verbatim>\<open>{'city', 'date'}\<close>
  does not apply to a context with a \<^verbatim>\<open>city\<close> entity alone and applies to one with
  \<^verbatim>\<open>city\<close>, \<^verbatim>\<open>date\<close> and \<^verbatim>\<open>currency\<close> entities. In the code the comparison reads
  \<^verbatim>\<open>context.entity_types\<close>, an attribute that a dict does not have (the set the loop
  has just built is not used): on both contexts \<^verbatim>\<open>apply\<close> raises
  \<^verbatim>\<open>AttributeError\<close>. The constructor does not build the rule either: it turns the
  list into a frozenset and then rejects the frozenset with \<^verbatim>\<open>ValueError\<close>.
\<close>

theorem scenario_C_apply_raises:
  "rule_apply city_date_rule
     (dict_context ''travel'' ''book'' [dict_entity ''city'' ''Paris'']) = Inl AttributeError
   \<and> rule_apply city_date_rule
     (dict_context ''travel'' ''book''
        [dict_entity ''city'' ''Paris'', dict_entity ''date'' ''Monday'',
         dict_entity ''currency'' ''EUR'']) = Inl AttributeError
   \<and> DialogueStateRule_init ''trip'' [''entities'' \<mapsto> PyList [''city'', ''date'']]
     = (Inl ValueError :: error + string rule)"
  by (simp add: rule_apply_def city_date_rule_def dict_context_def dict_entity_def
        DialogueStateRule_init_def key_kwargs_def)

section \<open>Complexity\<close>

text \<open>
  Claim C5. The claim says that the specificity of a rule counts 1 when the domain
  filter is present. The rule built with \<^verbatim>\<open>domain=''\<close> has a domain filter: the
  attribute is not \<^verbatim>\<open>None\<close>, and \<^verbatim>\<open>apply\<close> rejects a context of another domain and
  accepts one of the domain \<^verbatim>\<open>''\<close>. Its complexity is 0 all the same, not the 1 of
  the bit-flag sum, since \<^verbatim>\<open>complexity\<close> tests the truth value of the attribute and
  the empty string is false.
\<close>

theorem empty_domain_rule_scores_zero:
  "DialogueStateRule_init ''s'' [''domain'' \<mapsto> PyStr []] = Inr empty_domain_rule
   \<and> domain empty_domain_rule \<noteq> None
   \<and> rule_apply empty_domain_rule (dict_context ''weather'' ''forecast'' []) = Inr False
   \<and> rule_apply empty_domain_rule (dict_context [] ''forecast'' []) = Inr True
   \<and> complexity empty_domain_rule = 0
   \<and> complexity empty_domain_rule \<noteq>
       (if domain empty_domain_rule \<noteq> None then 1 else 0)
       + (if intent empty_domain_rule \<noteq> None then 2 else 0)
       + (if entity_types empty_domain_rule \<noteq> None then 4 else 0)
       + (if entity_mappings empty_domain_rule \<noteq> None then 8 else 0)"
  by (simp add: init_domain_only empty_domain_rule_def rule_apply_def dict_context_def
        complexity_def)

section \<open>Registration\<close>

text \<open>
  Claim C6. After any run of registrations that all succeed, starting from the empty
  manager, the rule list is sorted by ascending complexity, and for every complexity the
  rules of that complexity stand in the order in which they were registered.
\<close>

theorem rules_sorted_and_stable:
  assumes "register_all regs DialogueManager_init = Inr m"
  shows "sorted (map complexity (rules m))
       \<and> (\<forall>k. filter (\<lambda>r. complexity r = k) (rules m) =
                filter (\<lambda>r. complexity r = k) (registered_rules regs))"
proof -
  have "sorted (map complexity (rules m))"
    using assms by (rule register_all_sorted) (simp add: DialogueManager_init_def)
  moreover have "filter (\<lambda>r. complexity r = k) (rules m) =
                   filter (\<lambda>r. complexity r = k) (registered_rules regs)" for k
    using register_all_stable[OF assms, of k] by (simp add: DialogueManager_init_def)
  ultimately show ?thesis by simp
qed

theorem rules_sorted_and_stable_witness:
  "register_all example_registrations DialogueManager_init = Inr example_manager
   \<and> sorted (map complexity (rules example_manager))
   \<and> (\<forall>k. filter (\<lambda>r. complexity r = k) (rules example_manager) =
            filter (\<lambda>r. complexity r = k) (registered_rules example_registrations))
   \<and> map dialogue_state (registered_rules example_registrations)
       = [''forecast'', ''weather'', ''music'']
   \<and> map dialogue_state (rules example_manager) = [''weather'', ''music'', ''forecast'']
   \<and> map complexity (rules example_manager) = [1, 1, 3]"
proof -
  have regd: "map dialogue_state (registered_rules example_registrations)
       = [''forecast'', ''weather'', ''music'']"
    by (simp add: example_registrations_def rule_of_def state_name_def
          init_domain_only init_domain_intent)
  have names: "map dialogue_state (rules example_manager) = [''weather'', ''music'', ''forecast'']"
    and cs: "map complexity (rules example_manager) = [1, 1, 3]"
    by (simp_all add: example_manager_def complexity_def)
  from example_registered rules_sorted_and_stable[OF example_registered] regd names cs
  show ?thesis by blast
qed

text \<open>
  Claim C7. Registering a handler for a state name that already has one raises
  \<^verbatim>\<open>AssertionError\<close> inside \<^verbatim>\<open>add_dialogue_rule\<close> when the two handlers differ, and
  succeeds when they are the same; in both cases the handler table is left as it was.
\<close>

theorem handler_conflict_raises:
  assumes "state_name name (Some h) = Inr n"
    and "DialogueStateRule_init n kwargs = Inr rule"
    and "handler_map m n = Some old_handler"
  shows "(old_handler \<noteq> h \<longrightarrow>
            fst (add_dialogue_rule name (Some h) kwargs m) = Some AssertionError
          \<and> handler_map (snd (add_dialogue_rule name (Some h) kwargs m)) = handler_map m)
       \<and> (old_handler = h \<longrightarrow>
            fst (add_dialogue_rule name (Some h) kwargs m) = None
          \<and> handler_map (snd (add_dialogue_rule name (Some h) kwargs m)) = handler_map m)"
  using assms by (auto simp: add_dialogue_rule_def Let_def)

theorem handler_conflict_raises_witness:
  "state_name (Some ''greet'') (Some ask_handler) = Inr ''greet''
   \<and> state_name None (Some greet_handler) = Inr ''greet''
   \<and> DialogueStateRule_init ''greet'' Map.empty =
       Inr (\<lparr>dialogue_state = ''greet'', domain = None, intent = None,
             entity_types = None, entity_mappings = None\<rparr> :: string rule)
   \<and> handler_map greet_manager ''greet'' = Some greet_handler
   \<and> greet_handler \<noteq> ask_handler
   \<and> fst (add_dialogue_rule (Some ''greet'') (Some ask_handler) Map.empty greet_manager)
       = Some AssertionError
   \<and> fst (add_dialogue_rule None (Some greet_handler) Map.empty greet_manager) = None
   \<and> handler_map (snd (add_dialogue_rule None (Some greet_handler) Map.empty greet_manager))
       = handler_map greet_manager"
proof -
  have n1: "state_name (Some ''greet'') (Some ask_handler) = Inr ''greet''"
    and n2: "state_name None (Some greet_handler) = Inr ''greet''"
    by (simp_all add: state_name_def greet_handler_def)
  have r: "DialogueStateRule_init ''greet'' Map.empty =
       Inr (\<lparr>dialogue_state = ''greet'', domain = None, intent = None,
             entity_types = None, entity_mappings = None\<rparr> :: string rule)"
    by (rule init_no_kwargs)
  have old: "handler_map greet_manager ''greet'' = Some greet_handler"
    by (simp add: greet_manager_def)
  from handler_conflict_raises[OF n1 r old] handler_conflict_raises[OF n2 r old]
    n1 n2 r old greet_ask_distinct
  show ?thesis by simp
qed

text \<open>
  Claim C8, as stated, fails: the constructor reads the keywords \<^verbatim>\<open>domain\<close>,
  \<^verbatim>\<open>intent\<close>, \<^verbatim>\<open>entity\<close> and \<^verbatim>\<open>entities\<close> only, so a call with both \<^verbatim>\<open>domain\<close>
  and \<^verbatim>\<open>domains\<close> raises nothing and the rule is registered.
\<close>

theorem domain_and_domains_accepted_counterexample:
  "DialogueStateRule_init ''forecast''
     [''domain'' \<mapsto> PyStr ''weather'', ''domains'' \<mapsto> PyList [''weather'', ''news'']]
     = Inr (\<lparr>dialogue_state = ''forecast'', domain = Some (Arg (PyStr ''weather'')),
             intent = None, entity_types = None, entity_mappings = None\<rparr> :: string rule)
   \<and> add_dialogue_rule (Some ''forecast'') (Some ask_handler)
       [''domain'' \<mapsto> PyStr ''weather'', ''domains'' \<mapsto> PyList [''weather'', ''news'']]
       DialogueManager_init
     = (None,
        \<lparr>handler_map = [''forecast'' \<mapsto> ask_handler],
         rules = [\<lparr>dialogue_state = ''forecast'', domain = Some (Arg (PyStr ''weather'')),
                   intent = None, entity_types = None, entity_mappings = None\<rparr>]\<rparr>)"
proof -
  have i: "DialogueStateRule_init ''forecast''
     [''domain'' \<mapsto> PyStr ''weather'', ''domains'' \<mapsto> PyList [''weather'', ''news'']]
     = Inr (\<lparr>dialogue_state = ''forecast'', domain = Some (Arg (PyStr ''weather'')),
             intent = None, entity_types = None, entity_mappings = None\<rparr> :: string rule)"
    by (simp add: DialogueStateRule_init_def key_kwargs_def)
  then show ?thesis
    by (simp add: add_dialogue_rule_def state_name_def DialogueManager_init_def)
qed

text \<open>
  Claim C8, amended. The constructor fails with \<^verbatim>\<open>ValueError\<close> when both \<^verbatim>\<open>entity\<close>
  and \<^verbatim>\<open>entities\<close> are supplied; \<^verbatim>\<open>add_dialogue_rule\<close> then raises that error before
  it touches the rule list or the handler table. The keywords \<^verbatim>\<open>domains\<close> and
  \<^verbatim>\<open>intents\<close> are not read: supplying them changes nothing.
\<close>

theorem entity_and_entities_rejected:
  assumes "''entity'' \<in> dom kwargs" and "''entities'' \<in> dom kwargs"
  shows "DialogueStateRule_init state kwargs = Inl ValueError
       \<and> snd (add_dialogue_rule name handler kwargs m) = m
       \<and> (state_name name handler = Inr n \<longrightarrow>
            add_dialogue_rule name handler kwargs m = (Some ValueError, m))
       \<and> DialogueStateRule_init state (kw(''domains'' \<mapsto> x)) = DialogueStateRule_init state kw
       \<and> DialogueStateRule_init state (kw(''intents'' \<mapsto> x)) = DialogueStateRule_init state kw"
proof -
  have i: "DialogueStateRule_init s kwargs = Inl ValueError" for s
    using assms by (rule init_entity_and_entities)
  have "snd (add_dialogue_rule name handler kwargs m) = m"
    by (simp add: add_dialogue_rule_def i split: sum.splits)
  moreover have "state_name name handler = Inr n \<longrightarrow>
            add_dialogue_rule name handler kwargs m = (Some ValueError, m)"
    by (simp add: add_dialogue_rule_def i)
  moreover have
    "DialogueStateRule_init state (kw(''domains'' \<mapsto> x)) = DialogueStateRule_init state kw"
    "DialogueStateRule_init state (kw(''intents'' \<mapsto> x)) = DialogueStateRule_init state kw"
    by (simp_all add: init_ignores_other_keys)
  ultimately show ?thesis using i by simp
qed

theorem entity_and_entities_rejected_witness:
  "''entity'' \<in> dom entity_and_entities_kwargs
   \<and> ''entities'' \<in> dom entity_and_entities_kwargs
   \<and> DialogueStateRule_init ''trip'' entity_and_entities_kwargs = Inl ValueError
   \<and> add_dialogue_rule (Some ''trip'') (Some ask_handler) entity_and_entities_kwargs
        greet_manager
       = (Some ValueError, greet_manager)"
proof -
  have a: "''entity'' \<in> dom entity_and_entities_kwargs"
    and b: "''entities'' \<in> dom entity_and_entities_kwargs"
    by (simp_all add: entity_and_entities_kwargs_def)
  have n: "state_name (Some ''trip'') (Some ask_handler) = Inr ''trip''"
    by (simp add: state_name_def)
  from entity_and_entities_rejected[OF a b, where state = "''trip''"
      and name = "Some ''trip''" and handler = "Some ask_handler" and m = greet_manager
      and n = "''trip''" and kw = Map.empty and x = "PyStr []"] a b n
  show ?thesis by blast
qed

section \<open>Responder\<close>

text \<open>
  Claim C9, as stated, fails: not every call to \<^verbatim>\<open>reply\<close> appends an action. On an
  empty list \<^verbatim>\<open>random.choice\<close> raises \<^verbatim>\<open>IndexError\<close> and nothing is appended.
\<close>

theorem reply_empty_list_counterexample:
  "reply render_str 0 (ListOf []) ana_responder = (Some IndexError, ana_responder)
   \<and> client_actions (snd (reply render_str 0 (ListOf []) ana_responder)) = []"
  by (simp add: reply_def reply_impl_def random_choice_def ana_responder_def
        DialogueResponder_init_def)

text \<open>
  Claim C9, amended. When the argument is one string or a tuple, list or set of strings
  that is not empty, \<^verbatim>\<open>_choose\<close> returns the string itself, or one element of the
  collection; and when the substitution of the slots into that string succeeds,
  \<^verbatim>\<open>reply\<close> returns normally with exactly one action, named \<^verbatim>\<open>show-reply\<close> and
  carrying the substituted text, appended after the actions already there, which are
  kept as they were; \<^verbatim>\<open>prompt\<close> does the same under the name \<^verbatim>\<open>show-prompt\<close>.
\<close>

theorem reply_appends_one_action:
  assumes "candidates ta \<noteq> []"
  shows "\<exists>t \<in> set (candidates ta).
           choose_text rnd ta = Inr t
         \<and> (\<forall>s. str_format render t (slots r) = Inr s \<longrightarrow>
                reply render rnd ta r =
                  (None, r\<lparr>client_actions := client_actions r @
                             [\<lparr>action_name = ''show-reply'', message_text = s\<rparr>]\<rparr>)
              \<and> prompt render rnd ta r =
                  (None, r\<lparr>client_actions := client_actions r @
                             [\<lparr>action_name = ''show-prompt'', message_text = s\<rparr>]\<rparr>))"
proof -
  from assms obtain t where t: "t \<in> set (candidates ta)" "choose_text rnd ta = Inr t"
    using choose_text_candidates by blast
  then show ?thesis
    by (auto simp: reply_def prompt_def reply_impl_def respond_def)
qed

theorem reply_appends_one_action_witness:
  "candidates (TupleOf [''Hi {name}'', ''Hello {name}'']) \<noteq> []
   \<and> choose_text 1 (TupleOf [''Hi {name}'', ''Hello {name}'']) = Inr ''Hello {name}''
   \<and> str_format render_str ''Hello {name}'' (slots ana_responder) = Inr ''Hello Ana''
   \<and> reply render_str 1 (TupleOf [''Hi {name}'', ''Hello {name}'']) ana_responder =
       (None, ana_responder\<lparr>client_actions :=
          [\<lparr>action_name = ''show-reply'', message_text = ''Hello Ana''\<rparr>]\<rparr>)
   \<and> prompt render_str 1 (TupleOf [''Hi {name}'', ''Hello {name}'']) ana_responder =
       (None, ana_responder\<lparr>client_actions :=
          [\<lparr>action_name = ''show-prompt'', message_text = ''Hello Ana''\<rparr>]\<rparr>)"
proof -
  let ?ta = "TupleOf [''Hi {name}'', ''Hello {name}'']"
  have c: "candidates ?ta \<noteq> []"
    by simp
  have ch: "choose_text 1 ?ta = Inr ''Hello {name}''"
    by (simp add: random_choice_def)
  have s: "slots ana_responder = [''name'' \<mapsto> ''Ana'']"
    and acts: "client_actions ana_responder = []"
    by (simp_all add: ana_responder_def DialogueResponder_init_def)
  have f: "str_format render_str ''Hello {name}'' (slots ana_responder) = Inr ''Hello Ana''"
    unfolding s by (rule str_format_hello_name)
  from reply_appends_one_action[OF c, of 1 render_str ana_responder] obtain t where
    t: "choose_text 1 ?ta = Inr t"
    and r: "\<And>s. str_format render_str t (slots ana_responder) = Inr s \<Longrightarrow>
              reply render_str 1 ?ta ana_responder =
                (None, ana_responder\<lparr>client_actions := client_actions ana_responder @
                         [\<lparr>action_name = ''show-reply'', message_text = s\<rparr>]\<rparr>)
            \<and> prompt render_str 1 ?ta ana_responder =
                (None, ana_responder\<lparr>client_actions := client_actions ana_responder @
                         [\<lparr>action_name = ''show-prompt'', message_text = s\<rparr>]\<rparr>)"
    by blast
  from t ch have "t = ''Hello {name}''"
    by simp
  with r[of "''Hello Ana''"] f have
    "reply render_str 1 ?ta ana_responder =
       (None, ana_responder\<lparr>client_actions := client_actions ana_responder @
                [\<lparr>action_name = ''show-reply'', message_text = ''Hello Ana''\<rparr>]\<rparr>)"
    "prompt render_str 1 ?ta ana_responder =
       (None, ana_responder\<lparr>client_actions := client_actions ana_responder @
                [\<lparr>action_name = ''show-prompt'', message_text = ''Hello Ana''\<rparr>]\<rparr>)"
    by simp_all
  with c ch f show ?thesis
    by (simp add: acts)
qed

text \<open>
  Claim C10, as stated, fails: the error is not always the missing-key error. The
  template \<^verbatim>\<open>{} {name}\<close> has the placeholder \<^verbatim>\<open>{name}\<close>, whose key the empty slots
  lack, and \<^verbatim>\<open>reply\<close> raises \<^verbatim>\<open>IndexError\<close>: the positional field that comes first
  fails before the key is looked up.
\<close>

theorem positional_field_first_counterexample:
  "''name'' \<in> set (template_keys ''{} {name}'')
   \<and> slots (DialogueResponder_init Map.empty) ''name'' = None
   \<and> reply render_str 0 (OneStr ''{} {name}'') (DialogueResponder_init Map.empty)
       = (Some IndexError, DialogueResponder_init Map.empty)
   \<and> IndexError \<noteq> KeyError"
  by (simp add: template_keys_def markup_positional_then_name first_part_def
        DialogueResponder_init_def reply_def reply_impl_def str_format_def
        format_field_def get_argument_def first_index_def
        del: markup_text.simps)

text \<open>
  Claim C10, amended. When the string that \<^verbatim>\<open>_choose\<close> returns has a replacement
  field whose key the slots lack, the substitution raises an error, \<^verbatim>\<open>reply\<close> and
  \<^verbatim>\<open>prompt\<close> raise that error, and the responder, and so its list of actions, is left
  as it was: no action is appended. The error is the \<^verbatim>\<open>KeyError\<close> of the missing key
  when all that stands before the field in the template substitutes without error;
  otherwise it is the error of the earlier part.
\<close>

theorem missing_slot_key_raises:
  assumes "choose_text rnd ta = Inr t"
    and "k \<in> set (template_keys t)"
    and "slots r k = None"
  shows "\<exists>e. str_format render t (slots r) = Inl e
            \<and> reply render rnd ta r = (Some e, r)
            \<and> prompt render rnd ta r = (Some e, r)
            \<and> (\<forall>pre name source post s.
                  markup_text t = pre @ Replacement name source # post
                  \<and> first_part name = k \<and> k \<noteq> [] \<and> first_index k = None
                  \<and> format_pieces render (slots r) pre = Inr s
                  \<longrightarrow> e = KeyError)"
proof -
  from assms(2,3) obtain e where e: "str_format render t (slots r) = Inl e"
    using format_pieces_missing_key[of k "markup_text t" "slots r" render]
    by (auto simp: template_keys_def str_format_def)
  have "e = KeyError"
    if "markup_text t = pre @ Replacement name source # post" and "first_part name = k"
      and "k \<noteq> []" and "first_index k = None"
      and "format_pieces render (slots r) pre = Inr s"
    for pre name source post s
    using format_pieces_first_failure[of render "slots r" pre s name source post]
      that assms(3) e
    by (simp add: str_format_def)
  with e assms(1) show ?thesis
    by (auto simp: reply_def prompt_def reply_impl_def)
qed

theorem missing_slot_key_raises_witness:
  "choose_text 0 (OneStr ''Hi {name}'') = Inr ''Hi {name}''
   \<and> ''name'' \<in> set (template_keys ''Hi {name}'')
   \<and> slots (DialogueResponder_init Map.empty) ''name'' = None
   \<and> reply render_str 0 (OneStr ''Hi {name}'') (DialogueResponder_init Map.empty)
       = (Some KeyError, DialogueResponder_init Map.empty)
   \<and> prompt render_str 0 (OneStr ''Hi {name}'') (DialogueResponder_init Map.empty)
       = (Some KeyError, DialogueResponder_init Map.empty)
   \<and> choose_text 0 (OneStr ''{city:>5} {name}'') = Inr ''{city:>5} {name}''
   \<and> ''city'' \<in> set (template_keys ''{city:>5} {name}'')
   \<and> slots (DialogueResponder_init Map.empty) ''city'' = None
   \<and> reply render_str 0 (OneStr ''{city:>5} {name}'') (DialogueResponder_init Map.empty)
       = (Some KeyError, DialogueResponder_init Map.empty)"
proof -
  let ?r = "DialogueResponder_init Map.empty"
  have a: "choose_text 0 (OneStr ''Hi {name}'') = Inr ''Hi {name}''"
    and a': "choose_text 0 (OneStr ''{city:>5} {name}'') = Inr ''{city:>5} {name}''"
    by simp_all
  have b: "''name'' \<in> set (template_keys ''Hi {name}'')"
    by (simp add: template_keys_def markup_hi_name first_part_name del: markup_text.simps)
  have b': "''city'' \<in> set (template_keys ''{city:>5} {name}'')"
    by (simp add: template_keys_def markup_aligned_city first_part_city first_part_name
          del: markup_text.simps)
  have c: "slots ?r ''name'' = None" and c': "slots ?r ''city'' = None"
    by (simp_all add: DialogueResponder_init_def)
  have pre: "format_pieces render_str (slots ?r)
               [Literal CHR ''H'', Literal CHR ''i'', Literal CHR '' ''] = Inr ''Hi ''"
    and pre': "format_pieces render_str (slots ?r) [] = Inr []"
    by simp_all
  from missing_slot_key_raises[OF a b c, of render_str] obtain e where
    e: "reply render_str 0 (OneStr ''Hi {name}'') ?r = (Some e, ?r)"
       "prompt render_str 0 (OneStr ''Hi {name}'') ?r = (Some e, ?r)"
    and key: "\<And>pre name source post s.
                markup_text ''Hi {name}'' = pre @ Replacement name source # post
                \<and> first_part name = ''name'' \<and> ''name'' \<noteq> [] \<and> first_index ''name'' = None
                \<and> format_pieces render_str (slots ?r) pre = Inr s
                \<Longrightarrow> e = KeyError"
    by blast
  have "e = KeyError"
    by (rule key[of "[Literal CHR ''H'', Literal CHR ''i'', Literal CHR '' '']"
          "''name''" "''name''" "[]" "''Hi ''"])
       (simp add: markup_hi_name first_part_name first_index_name pre del: markup_text.simps)
  with e have first: "reply render_str 0 (OneStr ''Hi {name}'') ?r = (Some KeyError, ?r)"
    "prompt render_str 0 (OneStr ''Hi {name}'') ?r = (Some KeyError, ?r)"
    by simp_all
  from missing_slot_key_raises[OF a' b' c', of render_str] obtain e' where
    e': "reply render_str 0 (OneStr ''{city:>5} {name}'') ?r = (Some e', ?r)"
    and key': "\<And>pre name source post s.
                markup_text ''{city:>5} {name}'' = pre @ Replacement name source # post
                \<and> first_part name = ''city'' \<and> ''city'' \<noteq> [] \<and> first_index ''city'' = None
                \<and> format_pieces render_str (slots ?r) pre = Inr s
                \<Longrightarrow> e' = KeyError"
    by blast
  have "e' = KeyError"
    by (rule key'[of "[]" "''city''" "''city:>5''"
          "[Literal CHR '' '', Replacement ''name'' ''name'']" "[]"])
       (simp add: markup_aligned_city first_part_city first_index_city pre'
          del: markup_text.simps)
  with e' have second:
    "reply render_str 0 (OneStr ''{city:>5} {name}'') ?r = (Some KeyError, ?r)"
    by simp
  from a a' b b' c c' first second show ?thesis
    by simp
qed

end
